theory Spec2Isabelle
  imports Complex_Main
begin

section \<open>Numbers and vectors\<close>

text \<open>
  The program computes with numpy arrays of floats. Floats are modelled as the real
  numbers (exact arithmetic, no rounding). The one float behaviour that exact
  arithmetic cannot hide is division by zero: numpy returns NaN for \<open>0 / 0\<close> (it
  warns, it does not raise), and every later operation on a NaN gives NaN again.
  An array of three floats is therefore either a triple of reals or the array of
  NaNs, and a float result is either a real or NaN.
\<close>

type_synonym vec3 = "real \<times> real \<times> real"

type_synonym quat = "real \<times> real \<times> real \<times> real"

datatype np_vec = NaN3 | Vec vec3

datatype np_float = NaN | Float real

text \<open>The exceptions of Python that the modelled code can raise.\<close>

datatype py_error = TypeError | KeyError | ValueError

fun vadd :: "vec3 \<Rightarrow> vec3 \<Rightarrow> vec3" where
  "vadd (a1, a2, a3) (b1, b2, b3) = (a1 + b1, a2 + b2, a3 + b3)"

fun vsub :: "vec3 \<Rightarrow> vec3 \<Rightarrow> vec3" where
  "vsub (a1, a2, a3) (b1, b2, b3) = (a1 - b1, a2 - b2, a3 - b3)"

fun vneg :: "vec3 \<Rightarrow> vec3" where
  "vneg (a1, a2, a3) = (- a1, - a2, - a3)"

fun vmul :: "vec3 \<Rightarrow> real \<Rightarrow> vec3" where
  "vmul (a1, a2, a3) c = (a1 * c, a2 * c, a3 * c)"

fun vdiv :: "vec3 \<Rightarrow> real \<Rightarrow> vec3" where
  "vdiv (a1, a2, a3) c = (a1 / c, a2 / c, a3 / c)"

fun dot :: "vec3 \<Rightarrow> vec3 \<Rightarrow> real" where
  "dot (a1, a2, a3) (b1, b2, b3) = a1 * b1 + a2 * b2 + a3 * b3"

fun linalg_norm :: "vec3 \<Rightarrow> real" where
  "linalg_norm (a1, a2, a3) = sqrt (a1\<^sup>2 + a2\<^sup>2 + a3\<^sup>2)"

text \<open>The array operations of numpy: a NaN operand gives a NaN result.\<close>

fun np_add :: "np_vec \<Rightarrow> np_vec \<Rightarrow> np_vec" where
  "np_add (Vec a) (Vec b) = Vec (vadd a b)"
| "np_add _ _ = NaN3"

fun np_sub :: "np_vec \<Rightarrow> np_vec \<Rightarrow> np_vec" where
  "np_sub (Vec a) (Vec b) = Vec (vsub a b)"
| "np_sub _ _ = NaN3"

fun np_mul :: "np_vec \<Rightarrow> real \<Rightarrow> np_vec" where
  "np_mul (Vec a) c = Vec (vmul a c)"
| "np_mul NaN3 c = NaN3"

text \<open>
  \<open>v / np.linalg.norm(v)\<close>: the norm of a vector of reals is zero only for the zero
  vector, where every component is \<open>0 / 0\<close>.
\<close>

definition div_by_norm :: "vec3 \<Rightarrow> np_vec" where
  "div_by_norm v = (if linalg_norm v = 0 then NaN3 else Vec (vdiv v (linalg_norm v)))"

section \<open>calc\_body.py\<close>

subsection \<open>AnthropometricModel\<close>

record anthropometric_model =
  height :: real
  neck_length :: real
  shoulder_width :: real
  upper_arm_length :: real
  forearm_length :: real
  spine_length :: real
  upper_spine_length :: real
  mid_spine_length :: real
  lower_spine_length :: real

definition AnthropometricModel :: "real \<Rightarrow> anthropometric_model" where
  "AnthropometricModel height_m =
     \<lparr> height = height_m,
       neck_length = 0.05 * height_m,
       shoulder_width = 0.25 * height_m,
       upper_arm_length = 0.18 * height_m,
       forearm_length = 0.16 * height_m,
       spine_length = 0.30 * height_m,
       upper_spine_length = 0.10 * height_m,
       mid_spine_length = 0.10 * height_m,
       lower_spine_length = 0.10 * height_m \<rparr>"

subsection \<open>Data loading\<close>

text \<open>
  A row of the hand table: its timestamp, its chirality and the cells of its other
  columns, in column order. A cell read from the CSV is a number, a string or empty.
\<close>

datatype cell = Num real | Str string | Missing

record hand_row =
  t_mono :: real
  chirality :: string
  cells :: "(string \<times> cell) list"

text \<open>\<open>row.index\<close> with the values: all columns of the row.\<close>

definition row_items :: "hand_row \<Rightarrow> (string \<times> cell) list" where
  "row_items row = (''t_mono'', Num (t_mono row)) # (''chirality'', Str (chirality row)) # cells row"

text \<open>\<open>Series.unique()\<close>: the distinct values in order of first appearance.\<close>

definition unique :: "'a list \<Rightarrow> 'a list" where
  "unique xs = rev (remdups (rev xs))"

text \<open>The loop that fills \<open>right_hand_dict\<close> and \<open>left_hand_dict\<close> (returned in this order).\<close>

definition hand_dicts :: "hand_row list \<Rightarrow> (real \<rightharpoonup> hand_row) \<times> (real \<rightharpoonup> hand_row)" where
  "hand_dicts hand_data =
     fold (\<lambda>row (right_hand_dict, left_hand_dict).
             let t = t_mono row
             in if chirality row = ''right'' then (right_hand_dict(t \<mapsto> row), left_hand_dict)
                else if chirality row = ''left'' then (right_hand_dict, left_hand_dict(t \<mapsto> row))
                else (right_hand_dict, left_hand_dict))
          hand_data (Map.empty, Map.empty)"

text \<open>
  The inner loop \<open>for col in row.index: if col not in [...]: row_data[col + suffix] = row[col]\<close>.
\<close>

definition add_hand_columns :: "string \<Rightarrow> hand_row \<Rightarrow> (string \<rightharpoonup> cell) \<Rightarrow> (string \<rightharpoonup> cell)" where
  "add_hand_columns suffix row row_data =
     fold (\<lambda>(col, v) d. if col \<notin> set [''t_mono'', ''t_wall'', ''chirality'']
                          then d(col @ suffix \<mapsto> v) else d)
          (row_items row) row_data"

text \<open>The columns of a row that the inner loop copies.\<close>

definition data_columns :: "hand_row \<Rightarrow> string set" where
  "data_columns row = fst ` set (row_items row) - {''t_mono'', ''t_wall'', ''chirality''}"

definition organize :: "hand_row list \<Rightarrow> (string \<rightharpoonup> cell) list" where
  "organize hand_data =
     (let all_timestamps = sort (unique (map t_mono hand_data));
          (right_hand_dict, left_hand_dict) = hand_dicts hand_data
      in map (\<lambda>t.
           let row_data = Map.empty(''t_mono'' \<mapsto> Num t);
               row_data = (case right_hand_dict t of
                             Some right_row \<Rightarrow> add_hand_columns ''_right'' right_row row_data
                           | None \<Rightarrow> row_data);
               row_data = (case left_hand_dict t of
                             Some left_row \<Rightarrow> add_hand_columns ''_left'' left_row row_data
                           | None \<Rightarrow> row_data)
           in row_data) all_timestamps)"

text \<open>
  \<open>pd.DataFrame(organized_data)\<close> has a column for every key of some record. Selecting
  a column that the frame does not have raises KeyError.
\<close>

definition has_column :: "(string \<rightharpoonup> cell) list \<Rightarrow> string \<Rightarrow> bool" where
  "has_column organized_df col = list_ex (\<lambda>row_data. row_data col \<noteq> None) organized_df"

text \<open>
  The function reads the two CSV files; their contents are the parameters here. The
  three summary lines printed before the return select the columns
  \<open>forearmWrist_px_right\<close> and \<open>forearmWrist_px_left\<close> of the organized frame.
\<close>

definition load_and_organize_data ::
  "'d \<Rightarrow> hand_row list \<Rightarrow> py_error + ('d \<times> (string \<rightharpoonup> cell) list)" where
  "load_and_organize_data device_data hand_data =
     (let organized_df = organize hand_data
      in if has_column organized_df ''forearmWrist_px_right''
            \<and> has_column organized_df ''forearmWrist_px_left''
         then Inr (device_data, organized_df)
         else Inl KeyError)"

text \<open>
  A row of the device table: \<open>t_mono\<close>, \<open>(x, y, z)\<close> and \<open>(qx, qy, qz, qw)\<close>.
\<close>

type_synonym device_row = "real \<times> vec3 \<times> quat"

text \<open>\<open>a.min()\<close> and \<open>a.max()\<close> raise ValueError on an empty array.\<close>

fun np_min :: "real list \<Rightarrow> py_error + real" where
  "np_min [] = Inl ValueError"
| "np_min (x # xs) = Inr (fold min xs x)"

fun np_max :: "real list \<Rightarrow> py_error + real" where
  "np_max [] = Inl ValueError"
| "np_max (x # xs) = Inr (fold max xs x)"

definition np_clip :: "real \<Rightarrow> real \<Rightarrow> real \<Rightarrow> real" where
  "np_clip a a_min a_max = min (max a a_min) a_max"

text \<open>
  The interpolators come from scipy and are parameters of the model:
  \<open>interp1d times values\<close> stands for
  \<open>interp1d(times, values, kind='cubic', bounds_error=False, fill_value='extrapolate')\<close>,
  and \<open>Slerp times quats\<close> for \<open>Slerp(times, Rotation.from_quat(quats))\<close> followed by
  \<open>as_quat()\<close> on its results. Either constructor may raise; the function it returns
  is applied to each query time separately.
\<close>

definition interpolate_head_data ::
  "(real list \<Rightarrow> real list \<Rightarrow> py_error + (real \<Rightarrow> real))
     \<Rightarrow> (real list \<Rightarrow> quat list \<Rightarrow> py_error + (real \<Rightarrow> quat))
     \<Rightarrow> device_row list \<Rightarrow> real list \<Rightarrow> py_error + (vec3 list \<times> quat list)" where
  "interpolate_head_data interp1d Slerp device_data hand_timestamps =
     (let head_positions_raw = map (\<lambda>(t, p, q). p) device_data;
          head_orientations_raw = map (\<lambda>(t, p, q). q) device_data;
          head_timestamps = map (\<lambda>(t, p, q). t) device_data
      in case np_min head_timestamps of
           Inl e \<Rightarrow> Inl e
         | Inr head_min_time \<Rightarrow>
        (case np_max head_timestamps of
           Inl e \<Rightarrow> Inl e
         | Inr head_max_time \<Rightarrow>
        (let hand_timestamps_clipped =
               map (\<lambda>t. np_clip t head_min_time head_max_time) hand_timestamps
         in case interp1d head_timestamps (map (\<lambda>(x, y, z). x) head_positions_raw) of
              Inl e \<Rightarrow> Inl e
            | Inr interp_x \<Rightarrow>
           (case interp1d head_timestamps (map (\<lambda>(x, y, z). y) head_positions_raw) of
              Inl e \<Rightarrow> Inl e
            | Inr interp_y \<Rightarrow>
           (case interp1d head_timestamps (map (\<lambda>(x, y, z). z) head_positions_raw) of
              Inl e \<Rightarrow> Inl e
            | Inr interp_z \<Rightarrow>
           (case Slerp head_timestamps head_orientations_raw of
              Inl e \<Rightarrow> Inl e
            | Inr slerp_interp \<Rightarrow>
                (let head_positions =
                       map (\<lambda>t. (interp_x t, interp_y t, interp_z t)) hand_timestamps_clipped;
                     head_orientations = map slerp_interp hand_timestamps_clipped
                 in Inr (head_positions, head_orientations))))))))"

subsection \<open>Joint estimation\<close>

text \<open>The rotation matrix as its three rows; \<open>q = [qx, qy, qz, qw]\<close>.\<close>

fun quaternion_to_rotation_matrix :: "quat \<Rightarrow> vec3 \<times> vec3 \<times> vec3" where
  "quaternion_to_rotation_matrix (qx, qy, qz, qw) =
     ((1 - 2 * (qy\<^sup>2 + qz\<^sup>2), 2 * (qx * qy - qz * qw), 2 * (qx * qz + qy * qw)),
      (2 * (qx * qy + qz * qw), 1 - 2 * (qx\<^sup>2 + qz\<^sup>2), 2 * (qy * qz - qx * qw)),
      (2 * (qx * qz - qy * qw), 2 * (qy * qz + qx * qw), 1 - 2 * (qx\<^sup>2 + qy\<^sup>2)))"

text \<open>\<open>m[:, 0]\<close> and \<open>m[:, 1]\<close>.\<close>

fun column0 :: "vec3 \<times> vec3 \<times> vec3 \<Rightarrow> vec3" where
  "column0 ((a0, a1, a2), (b0, b1, b2), (c0, c1, c2)) = (a0, b0, c0)"

fun column1 :: "vec3 \<times> vec3 \<times> vec3 \<Rightarrow> vec3" where
  "column1 ((a0, a1, a2), (b0, b1, b2), (c0, c1, c2)) = (a1, b1, c1)"

definition get_down_vector :: "quat \<Rightarrow> np_vec" where
  "get_down_vector head_quaternion =
     (let rot_matrix = quaternion_to_rotation_matrix head_quaternion;
          down_vector = vneg (column1 rot_matrix)
      in div_by_norm down_vector)"

definition estimate_neck_position :: "np_vec \<Rightarrow> quat \<Rightarrow> anthropometric_model \<Rightarrow> np_vec" where
  "estimate_neck_position head_pos head_quat body_model =
     (let down_vector = get_down_vector head_quat
      in np_add head_pos (np_mul down_vector (neck_length body_model)))"

definition estimate_spine_positions ::
  "np_vec \<Rightarrow> quat \<Rightarrow> anthropometric_model \<Rightarrow> np_vec \<times> np_vec \<times> np_vec" where
  "estimate_spine_positions neck_pos head_quat body_model =
     (let down_vector = get_down_vector head_quat;
          upper_spine = np_add neck_pos (np_mul down_vector (upper_spine_length body_model));
          mid_spine = np_add upper_spine (np_mul down_vector (mid_spine_length body_model));
          lower_spine = np_add mid_spine (np_mul down_vector (lower_spine_length body_model))
      in (upper_spine, mid_spine, lower_spine))"

definition estimate_shoulder_positions ::
  "np_vec \<Rightarrow> quat \<Rightarrow> anthropometric_model \<Rightarrow> np_vec \<times> np_vec" where
  "estimate_shoulder_positions upper_spine_pos head_quat body_model =
     (let rot_matrix = quaternion_to_rotation_matrix head_quat;
          right_vector = column0 rot_matrix;
          right_vector = div_by_norm right_vector;
          left_shoulder = np_sub upper_spine_pos (np_mul right_vector (shoulder_width body_model / 2));
          right_shoulder = np_add upper_spine_pos (np_mul right_vector (shoulder_width body_model / 2))
      in (left_shoulder, right_shoulder))"

text \<open>
  The landmarks are \<open>None\<close> when the hand was not tracked. With a NaN shoulder the
  distance is NaN, the comparison \<open>NaN < 1e-6\<close> is false, and the elbow is NaN.
\<close>

definition estimate_elbow_position ::
  "np_vec \<Rightarrow> np_vec option \<Rightarrow> np_vec option \<Rightarrow> real \<Rightarrow> np_vec option" where
  "estimate_elbow_position shoulder_pos forearm_pos wrist_pos upper_arm_len =
     (case forearm_pos of
        None \<Rightarrow> None
      | Some forearm \<Rightarrow>
          (case wrist_pos of
             None \<Rightarrow> None
           | Some wrist \<Rightarrow>
               (case np_sub forearm shoulder_pos of
                  NaN3 \<Rightarrow> Some NaN3
                | Vec shoulder_to_forearm \<Rightarrow>
                    (let distance_to_forearm = linalg_norm shoulder_to_forearm
                     in if distance_to_forearm < 1 / 1000000
                        then Some (np_add shoulder_pos (Vec (0, 0, upper_arm_len)))
                        else (let direction = vdiv shoulder_to_forearm distance_to_forearm;
                                  elbow_pos = np_add shoulder_pos (Vec (vmul direction upper_arm_len))
                              in Some elbow_pos)))))"

subsection \<open>Skeleton reconstruction\<close>

record UpperBodySkeleton =
  head :: "np_vec option"
  neck :: "np_vec option"
  upper_spine :: "np_vec option"
  mid_spine :: "np_vec option"
  lower_spine :: "np_vec option"
  left_shoulder :: "np_vec option"
  right_shoulder :: "np_vec option"
  left_elbow :: "np_vec option"
  right_elbow :: "np_vec option"
  left_wrist :: "np_vec option"
  right_wrist :: "np_vec option"

definition UpperBodySkeleton_init :: UpperBodySkeleton where
  "UpperBodySkeleton_init =
     \<lparr> head = None, neck = None, upper_spine = None, mid_spine = None, lower_spine = None,
       left_shoulder = None, right_shoulder = None, left_elbow = None, right_elbow = None,
       left_wrist = None, right_wrist = None \<rparr>"

definition reconstruct_skeleton ::
  "np_vec \<Rightarrow> quat \<Rightarrow> np_vec option \<Rightarrow> np_vec option \<Rightarrow> np_vec option \<Rightarrow> np_vec option
     \<Rightarrow> anthropometric_model \<Rightarrow> UpperBodySkeleton" where
  "reconstruct_skeleton head_pos head_quat l_wrist r_wrist l_forearm r_forearm body_model =
     (let skeleton = UpperBodySkeleton_init;
          skeleton = skeleton\<lparr>head := Some head_pos\<rparr>;
          skeleton = skeleton\<lparr>left_wrist := l_wrist\<rparr>;
          skeleton = skeleton\<lparr>right_wrist := r_wrist\<rparr>;
          neck_pos = estimate_neck_position head_pos head_quat body_model;
          skeleton = skeleton\<lparr>neck := Some neck_pos\<rparr>;
          (upper, mid, lower) = estimate_spine_positions neck_pos head_quat body_model;
          skeleton = skeleton\<lparr>upper_spine := Some upper\<rparr>;
          skeleton = skeleton\<lparr>mid_spine := Some mid\<rparr>;
          skeleton = skeleton\<lparr>lower_spine := Some lower\<rparr>;
          (l_shoulder, r_shoulder) = estimate_shoulder_positions upper head_quat body_model;
          skeleton = skeleton\<lparr>left_shoulder := Some l_shoulder, right_shoulder := Some r_shoulder\<rparr>;
          skeleton = skeleton\<lparr>left_elbow :=
            estimate_elbow_position l_shoulder l_forearm l_wrist (upper_arm_length body_model)\<rparr>;
          skeleton = skeleton\<lparr>right_elbow :=
            estimate_elbow_position r_shoulder r_forearm r_wrist (upper_arm_length body_model)\<rparr>
      in skeleton)"

section \<open>calculate\_and\_join\_skeleton\_data.py\<close>

text \<open>
  \<open>AnthropometricModel\<close> and the methods \<open>quaternion_to_rotation_matrix\<close>,
  \<open>get_down_vector\<close>, \<open>estimate_neck_position\<close>, \<open>estimate_spine_positions\<close> and
  \<open>estimate_shoulder_positions\<close> of \<open>SkeletonCalculator\<close> compute what the functions
  of the same names in calc\_body.py compute, with \<open>self.body_model\<close> for the
  parameter \<open>body_model\<close>; the definitions above stand for both. The elbow estimate and
  the reconstruction differ and are modelled here.
\<close>

text \<open>\<open>a - b\<close> where an operand may be \<open>None\<close>: Python raises TypeError.\<close>

definition sub_or_raise :: "np_vec option \<Rightarrow> np_vec option \<Rightarrow> py_error + np_vec" where
  "sub_or_raise a b =
     (case a of
        None \<Rightarrow> Inl TypeError
      | Some u \<Rightarrow> (case b of None \<Rightarrow> Inl TypeError | Some v \<Rightarrow> Inr (np_sub u v)))"

text \<open>No \<open>None\<close> check and no epsilon branch here: a zero distance divides \<open>0 / 0\<close>.\<close>

definition SkeletonCalculator_estimate_elbow_position ::
  "anthropometric_model \<Rightarrow> np_vec \<Rightarrow> np_vec option \<Rightarrow> np_vec option \<Rightarrow> py_error + np_vec" where
  "SkeletonCalculator_estimate_elbow_position body_model shoulder_pos forearm_pos wrist_pos =
     (case sub_or_raise forearm_pos (Some shoulder_pos) of
        Inl e \<Rightarrow> Inl e
      | Inr shoulder_to_forearm \<Rightarrow>
          (let direction = (case shoulder_to_forearm of NaN3 \<Rightarrow> NaN3 | Vec v \<Rightarrow> div_by_norm v);
               elbow_pos = np_add shoulder_pos (np_mul direction (upper_arm_length body_model))
           in Inr elbow_pos))"

type_synonym joints = "string \<rightharpoonup> np_vec option"

definition SkeletonCalculator_reconstruct_skeleton ::
  "anthropometric_model \<Rightarrow> np_vec \<Rightarrow> quat \<Rightarrow> np_vec option \<Rightarrow> np_vec option
     \<Rightarrow> np_vec option \<Rightarrow> np_vec option \<Rightarrow> py_error + joints" where
  "SkeletonCalculator_reconstruct_skeleton body_model head_pos head_quat
       l_wrist r_wrist l_forearm r_forearm =
     (let joints = Map.empty;
          joints = joints(''head'' \<mapsto> Some head_pos);
          joints = joints(''left_wrist'' \<mapsto> l_wrist);
          joints = joints(''right_wrist'' \<mapsto> r_wrist);
          joints = joints(''left_forearm'' \<mapsto> l_forearm);
          joints = joints(''right_forearm'' \<mapsto> r_forearm);
          neck_pos = estimate_neck_position head_pos head_quat body_model;
          joints = joints(''neck'' \<mapsto> Some neck_pos);
          (upper, mid, lower) = estimate_spine_positions neck_pos head_quat body_model;
          joints = joints(''upper_spine'' \<mapsto> Some upper);
          joints = joints(''mid_spine'' \<mapsto> Some mid);
          joints = joints(''lower_spine'' \<mapsto> Some lower);
          (l_shoulder, r_shoulder) = estimate_shoulder_positions upper head_quat body_model;
          joints = joints(''left_shoulder'' \<mapsto> Some l_shoulder);
          joints = joints(''right_shoulder'' \<mapsto> Some r_shoulder)
      in case SkeletonCalculator_estimate_elbow_position body_model l_shoulder l_forearm l_wrist of
           Inl e \<Rightarrow> Inl e
         | Inr l_elbow \<Rightarrow>
             (let joints = joints(''left_elbow'' \<mapsto> Some l_elbow)
              in case SkeletonCalculator_estimate_elbow_position body_model r_shoulder r_forearm r_wrist of
                   Inl e \<Rightarrow> Inl e
                 | Inr r_elbow \<Rightarrow> Inr (joints(''right_elbow'' \<mapsto> Some r_elbow))))"

subsection \<open>AngleCalculator\<close>

definition degrees :: "real \<Rightarrow> real" where
  "degrees x = x * 180 / pi"

text \<open>
  A zero-length vector makes the quotient \<open>0 / 0\<close>: the angle is NaN, and nothing is
  raised. Only a \<open>None\<close> operand raises.
\<close>

definition calculate_angle_3_points ::
  "np_vec option \<Rightarrow> np_vec option \<Rightarrow> np_vec option \<Rightarrow> py_error + np_float" where
  "calculate_angle_3_points p1 p2 p3 =
     (case sub_or_raise p1 p2 of
        Inl e \<Rightarrow> Inl e
      | Inr v1 \<Rightarrow>
          (case sub_or_raise p3 p2 of
             Inl e \<Rightarrow> Inl e
           | Inr v2 \<Rightarrow>
               Inr (case v1 of
                      NaN3 \<Rightarrow> NaN
                    | Vec a \<Rightarrow>
                        (case v2 of
                           NaN3 \<Rightarrow> NaN
                         | Vec b \<Rightarrow>
                             if linalg_norm a * linalg_norm b = 0 then NaN
                             else (let cos_angle = dot a b / (linalg_norm a * linalg_norm b);
                                       cos_angle = np_clip cos_angle (- 1) 1;
                                       angle_rad = arccos cos_angle
                                   in Float (degrees angle_rad))))))"

type_synonym angles = "string \<rightharpoonup> np_float"

text \<open>
  One \<open>if all(k in joints ...): angles[name] = calculate_angle_3_points(...)\<close>
  statement of the \<open>try\<close> block.
\<close>

definition angle_statement ::
  "joints \<Rightarrow> angles \<Rightarrow> string \<Rightarrow> string \<Rightarrow> string \<Rightarrow> string \<Rightarrow> py_error + angles" where
  "angle_statement joints angles name k1 k2 k3 =
     (if joints k1 \<noteq> None \<and> joints k2 \<noteq> None \<and> joints k3 \<noteq> None
      then (case calculate_angle_3_points (the (joints k1)) (the (joints k2)) (the (joints k3)) of
              Inl e \<Rightarrow> Inl e
            | Inr a \<Rightarrow> Inr (angles(name \<mapsto> a)))
      else Inr angles)"

text \<open>
  The five statements share one \<open>try\<close> block: an exception in one of them leaves
  the block, the handler prints a warning, and the angles stored so far are returned.
\<close>

definition calculate_skeleton_angles :: "joints \<Rightarrow> angles" where
  "calculate_skeleton_angles joints =
     (let angles = Map.empty
      in case angle_statement joints angles
                ''left_elbow_angle'' ''left_shoulder'' ''left_elbow'' ''left_wrist'' of
           Inl e \<Rightarrow> angles
         | Inr angles \<Rightarrow>
        (case angle_statement joints angles
                ''right_elbow_angle'' ''right_shoulder'' ''right_elbow'' ''right_wrist'' of
           Inl e \<Rightarrow> angles
         | Inr angles \<Rightarrow>
        (case angle_statement joints angles
                ''left_shoulder_angle'' ''upper_spine'' ''left_shoulder'' ''left_elbow'' of
           Inl e \<Rightarrow> angles
         | Inr angles \<Rightarrow>
        (case angle_statement joints angles
                ''right_shoulder_angle'' ''upper_spine'' ''right_shoulder'' ''right_elbow'' of
           Inl e \<Rightarrow> angles
         | Inr angles \<Rightarrow>
        (case angle_statement joints angles
                ''spine_bend_angle'' ''neck'' ''mid_spine'' ''lower_spine'' of
           Inl e \<Rightarrow> angles
         | Inr angles \<Rightarrow> angles)))))"

subsection \<open>What one statement of the \<open>try\<close> block does\<close>

text \<open>
  The statement for the joints \<open>k1\<close>, \<open>k2\<close>, \<open>k3\<close> raises when the three keys are in
  the dictionary and \<open>calculate_angle_3_points\<close> raises on their values; otherwise it
  stores the angle \<open>angle_of\<close>, if the three keys are there, and nothing if not.
\<close>

definition angle_raises :: "joints \<Rightarrow> string \<Rightarrow> string \<Rightarrow> string \<Rightarrow> bool" where
  "angle_raises joints k1 k2 k3 =
     (joints k1 \<noteq> None \<and> joints k2 \<noteq> None \<and> joints k3 \<noteq> None
      \<and> isl (calculate_angle_3_points (the (joints k1)) (the (joints k2)) (the (joints k3))))"

definition angle_of :: "joints \<Rightarrow> string \<Rightarrow> string \<Rightarrow> string \<Rightarrow> np_float option" where
  "angle_of joints k1 k2 k3 =
     (if joints k1 \<noteq> None \<and> joints k2 \<noteq> None \<and> joints k3 \<noteq> None
      then (case calculate_angle_3_points (the (joints k1)) (the (joints k2)) (the (joints k3)) of
              Inl e \<Rightarrow> None
            | Inr a \<Rightarrow> Some a)
      else None)"

section \<open>Facts about vectors\<close>

lemma linalg_norm_nonneg: "0 \<le> linalg_norm v"
  by (cases v) simp

lemma linalg_norm_vmul: "linalg_norm (vmul v c) = linalg_norm v * \<bar>c\<bar>"
proof (cases v)
  case (fields a1 a2 a3)
  have "(a1 * c)\<^sup>2 + (a2 * c)\<^sup>2 + (a3 * c)\<^sup>2 = (a1\<^sup>2 + a2\<^sup>2 + a3\<^sup>2) * c\<^sup>2"
    by (simp add: power2_eq_square algebra_simps)
  then show ?thesis
    using fields by (simp add: real_sqrt_mult)
qed

lemma linalg_norm_vdiv: "linalg_norm (vdiv v c) = linalg_norm v / \<bar>c\<bar>"
proof (cases v)
  case (fields a1 a2 a3)
  have "(a1 / c)\<^sup>2 + (a2 / c)\<^sup>2 + (a3 / c)\<^sup>2 = (a1\<^sup>2 + a2\<^sup>2 + a3\<^sup>2) / c\<^sup>2"
    by (simp add: power_divide add_divide_distrib)
  then show ?thesis
    using fields by (simp add: real_sqrt_divide)
qed

lemma linalg_norm_unit: "linalg_norm v \<noteq> 0 \<Longrightarrow> linalg_norm (vdiv v (linalg_norm v)) = 1"
  using linalg_norm_nonneg [of v] by (simp add: linalg_norm_vdiv)

lemma vsub_vadd_cancel: "vsub (vadd a b) a = b"
  by (cases a, cases b) simp

lemma vdiv_one: "vdiv v 1 = v"
  by (cases v) simp

lemma midpoint_sym: "vmul (vadd (vsub u d) (vadd u d)) (1 / 2) = u"
  by (cases u, cases d) simp

lemma vsub_sym: "vsub (vadd u d) (vsub u d) = vmul d 2"
  by (cases u, cases d) simp

lemma vsub_vsub_cancel: "vsub u (vsub u d) = d"
  by (cases u, cases d) simp

lemma vmul_vmul: "vmul (vmul v a) b = vmul v (a * b)"
  by (cases v) (simp add: mult.assoc)

lemma linalg_norm_zero_iff: "linalg_norm v = 0 \<longleftrightarrow> v = (0, 0, 0)"
proof (cases v)
  case (fields a1 a2 a3)
  have "a1\<^sup>2 + a2\<^sup>2 + a3\<^sup>2 = 0 \<longleftrightarrow> a1 = 0 \<and> a2 = 0 \<and> a3 = 0"
    by (simp add: add_nonneg_eq_0_iff)
  with fields show ?thesis by simp
qed

lemma vsub_zero_iff: "vsub a b = (0, 0, 0) \<longleftrightarrow> a = b"
  by (cases a, cases b) simp

lemma linalg_norm_vneg: "linalg_norm (vneg v) = linalg_norm v"
  by (cases v) simp

lemma dot_self: "dot v v = (linalg_norm v)\<^sup>2"
proof (cases v)
  case (fields a1 a2 a3)
  have "0 \<le> a1\<^sup>2 + a2\<^sup>2 + a3\<^sup>2" by simp
  with fields show ?thesis by (simp add: power2_eq_square)
qed

lemma dot_vneg: "dot v (vneg w) = - dot v w"
  by (cases v, cases w) simp

lemma dot_vmul: "dot (vmul d s) (vmul d t) = s * t * (linalg_norm d)\<^sup>2"
  unfolding dot_self [symmetric] by (cases d) (simp add: algebra_simps)

lemma vsub_two_steps: "vsub n (vadd (vadd n (vmul d a)) (vmul d b)) = vmul d (- (a + b))"
  by (cases n, cases d) (simp add: algebra_simps)

subsection \<open>The axes of a head orientation\<close>

text \<open>
  The squared lengths of the right and down columns, for any quaternion: both are 1
  when the quaternion has unit norm.
\<close>

lemma column0_norm_sq:
  "(linalg_norm (column0 (quaternion_to_rotation_matrix (qx, qy, qz, qw))))\<^sup>2
     = 1 + 4 * (qy\<^sup>2 + qz\<^sup>2) * (qx\<^sup>2 + qy\<^sup>2 + qz\<^sup>2 + qw\<^sup>2 - 1)"
proof -
  have "0 \<le> (1 - 2 * (qy\<^sup>2 + qz\<^sup>2))\<^sup>2 + (2 * (qx * qy + qz * qw))\<^sup>2 + (2 * (qx * qz - qy * qw))\<^sup>2"
    by simp
  then show ?thesis
    by (simp add: power2_eq_square algebra_simps)
qed

lemma column1_norm_sq:
  "(linalg_norm (vneg (column1 (quaternion_to_rotation_matrix (qx, qy, qz, qw)))))\<^sup>2
     = 1 + 4 * (qx\<^sup>2 + qz\<^sup>2) * (qx\<^sup>2 + qy\<^sup>2 + qz\<^sup>2 + qw\<^sup>2 - 1)"
proof -
  have "0 \<le> (2 * (qx * qy - qz * qw))\<^sup>2 + (1 - 2 * (qx\<^sup>2 + qz\<^sup>2))\<^sup>2 + (2 * (qy * qz + qx * qw))\<^sup>2"
    by simp
  then show ?thesis
    by (simp add: power2_eq_square algebra_simps)
qed

lemma unit_right_vector:
  assumes "qx\<^sup>2 + qy\<^sup>2 + qz\<^sup>2 + qw\<^sup>2 = 1"
  shows "linalg_norm (column0 (quaternion_to_rotation_matrix (qx, qy, qz, qw))) = 1"
proof -
  have "(linalg_norm (column0 (quaternion_to_rotation_matrix (qx, qy, qz, qw))))\<^sup>2 = 1"
    using assms unfolding column0_norm_sq by simp
  then show ?thesis
    using linalg_norm_nonneg [of "column0 (quaternion_to_rotation_matrix (qx, qy, qz, qw))"]
    by (simp add: power2_eq_1_iff)
qed

lemma unit_down_vector:
  assumes "qx\<^sup>2 + qy\<^sup>2 + qz\<^sup>2 + qw\<^sup>2 = 1"
  shows "linalg_norm (vneg (column1 (quaternion_to_rotation_matrix (qx, qy, qz, qw)))) = 1"
proof -
  have "(linalg_norm (vneg (column1 (quaternion_to_rotation_matrix (qx, qy, qz, qw)))))\<^sup>2 = 1"
    using assms unfolding column1_norm_sq by simp
  then show ?thesis
    using linalg_norm_nonneg [of "vneg (column1 (quaternion_to_rotation_matrix (qx, qy, qz, qw)))"]
    by (simp add: power2_eq_1_iff)
qed

lemma right_vector_defined:
  assumes "qx\<^sup>2 + qy\<^sup>2 + qz\<^sup>2 + qw\<^sup>2 = 1
           \<or> column0 (quaternion_to_rotation_matrix (qx, qy, qz, qw)) \<noteq> (0, 0, 0)"
  shows "linalg_norm (column0 (quaternion_to_rotation_matrix (qx, qy, qz, qw))) \<noteq> 0"
  using assms
proof
  assume "qx\<^sup>2 + qy\<^sup>2 + qz\<^sup>2 + qw\<^sup>2 = 1"
  then show ?thesis using unit_right_vector [of qx qy qz qw] by simp
next
  assume "column0 (quaternion_to_rotation_matrix (qx, qy, qz, qw)) \<noteq> (0, 0, 0)"
  then show ?thesis unfolding linalg_norm_zero_iff .
qed

lemma down_vector_defined:
  assumes "qx\<^sup>2 + qy\<^sup>2 + qz\<^sup>2 + qw\<^sup>2 = 1
           \<or> column1 (quaternion_to_rotation_matrix (qx, qy, qz, qw)) \<noteq> (0, 0, 0)"
  shows "linalg_norm (vneg (column1 (quaternion_to_rotation_matrix (qx, qy, qz, qw)))) \<noteq> 0"
proof -
  have neg: "vneg v = (0, 0, 0) \<longleftrightarrow> v = (0, 0, 0)" for v by (cases v) simp
  from assms show ?thesis
  proof
    assume "qx\<^sup>2 + qy\<^sup>2 + qz\<^sup>2 + qw\<^sup>2 = 1"
    then show ?thesis using unit_down_vector [of qx qy qz qw] by simp
  next
    assume "column1 (quaternion_to_rotation_matrix (qx, qy, qz, qw)) \<noteq> (0, 0, 0)"
    then show ?thesis unfolding linalg_norm_zero_iff neg .
  qed
qed

section \<open>Skeleton reconstruction (calc\_body.py)\<close>

text \<open>
  Claim C9. For a head orientation of unit norm (or, more generally, one whose right
  column of the rotation matrix is not the zero vector) and a model built from a height
  that is not negative, the two shoulders are numbers (not NaN), they lie on opposite
  sides of \<open>upper_spine\<close> along the head's unit right vector, each at half the shoulder
  width, so their midpoint is \<open>upper_spine\<close>, and their distance is \<open>shoulder_width\<close>.
\<close>

theorem shoulders_symmetric:
  assumes q: "qx\<^sup>2 + qy\<^sup>2 + qz\<^sup>2 + qw\<^sup>2 = 1
              \<or> column0 (quaternion_to_rotation_matrix (qx, qy, qz, qw)) \<noteq> (0, 0, 0)"
    and h: "0 \<le> height_m"
  shows "\<exists>l r right_vector.
             estimate_shoulder_positions (Vec upper_spine_pos) (qx, qy, qz, qw)
               (AnthropometricModel height_m) = (Vec l, Vec r)
           \<and> div_by_norm (column0 (quaternion_to_rotation_matrix (qx, qy, qz, qw))) = Vec right_vector
           \<and> linalg_norm right_vector = 1
           \<and> vsub r upper_spine_pos = vmul right_vector (shoulder_width (AnthropometricModel height_m) / 2)
           \<and> vsub upper_spine_pos l = vmul right_vector (shoulder_width (AnthropometricModel height_m) / 2)
           \<and> vmul (vadd l r) (1 / 2) = upper_spine_pos
           \<and> linalg_norm (vsub r l) = shoulder_width (AnthropometricModel height_m)"
proof -
  let ?c = "column0 (quaternion_to_rotation_matrix (qx, qy, qz, qw))"
  let ?rv = "vdiv ?c (linalg_norm ?c)"
  let ?w = "shoulder_width (AnthropometricModel height_m)"
  let ?d = "vmul ?rv (?w / 2)"
  have nz: "linalg_norm ?c \<noteq> 0" by (rule right_vector_defined [OF q])
  have n: "linalg_norm ?rv = 1" by (rule linalg_norm_unit [OF nz])
  have rv: "div_by_norm ?c = Vec ?rv" using nz by (simp add: div_by_norm_def)
  have w: "0 \<le> ?w" using h by (simp add: AnthropometricModel_def)
  have e: "estimate_shoulder_positions (Vec upper_spine_pos) (qx, qy, qz, qw)
             (AnthropometricModel height_m)
             = (Vec (vsub upper_spine_pos ?d), Vec (vadd upper_spine_pos ?d))"
    unfolding estimate_shoulder_positions_def Let_def rv by simp
  have "linalg_norm (vsub (vadd upper_spine_pos ?d) (vsub upper_spine_pos ?d)) = ?w"
    using w unfolding vsub_sym vmul_vmul linalg_norm_vmul n by simp
  then show ?thesis
    unfolding e rv using n
    by (simp add: midpoint_sym vsub_vadd_cancel vsub_vsub_cancel
        del: quaternion_to_rotation_matrix.simps linalg_norm.simps)
qed

theorem shoulders_symmetric_witness:
  "((0::real)\<^sup>2 + 0\<^sup>2 + 0\<^sup>2 + 1\<^sup>2 = 1
     \<or> column0 (quaternion_to_rotation_matrix (0, 0, 0, 1)) \<noteq> (0, 0, 0))
   \<and> (0::real) \<le> 2
   \<and> estimate_shoulder_positions (Vec (0, 0, 0)) (0, 0, 0, 1) (AnthropometricModel 2)
       = (Vec (- 1 / 4, 0, 0), Vec (1 / 4, 0, 0))
   \<and> linalg_norm (vsub (1 / 4, 0, 0) (- 1 / 4, 0, 0)) = shoulder_width (AnthropometricModel 2)"
proof -
  have u: "(0::real)\<^sup>2 + 0\<^sup>2 + 0\<^sup>2 + 1\<^sup>2 = 1
     \<or> column0 (quaternion_to_rotation_matrix (0, 0, 0, 1)) \<noteq> (0, 0, 0)" by simp
  have h: "(0::real) \<le> 2" by simp
  from shoulders_symmetric [OF u h, of "(0, 0, 0)"]
  obtain l r where e: "estimate_shoulder_positions (Vec (0, 0, 0)) (0, 0, 0, 1)
      (AnthropometricModel 2) = (Vec l, Vec r)"
    and n: "linalg_norm (vsub r l) = shoulder_width (AnthropometricModel 2)"
    by blast
  have c: "estimate_shoulder_positions (Vec (0, 0, 0)) (0, 0, 0, 1) (AnthropometricModel 2)
       = (Vec (- 1 / 4, 0, 0), Vec (1 / 4, 0, 0))"
    by (simp add: estimate_shoulder_positions_def Let_def div_by_norm_def AnthropometricModel_def)
  from e c have "l = (- 1 / 4, 0, 0)" "r = (1 / 4, 0, 0)" by simp_all
  with n u h c show ?thesis by simp
qed

text \<open>
  Claim C1. When both landmarks of a side are present, the shoulder and the forearm
  landmark are numbers and the model is built from a height that is not negative, the
  elbow is computed and lies at distance \<open>upper_arm_length\<close> from the shoulder, wherever
  the forearm landmark is: in the branch for a distance below \<open>1e-6\<close> as in the other.
\<close>

theorem elbow_distance:
  assumes h: "0 \<le> height_m"
  shows "\<exists>e. estimate_elbow_position (Vec shoulder_pos) (Some (Vec forearm_pos)) (Some wrist_pos)
                (upper_arm_length (AnthropometricModel height_m)) = Some (Vec e)
           \<and> linalg_norm (vsub e shoulder_pos) = upper_arm_length (AnthropometricModel height_m)"
proof -
  let ?L = "upper_arm_length (AnthropometricModel height_m)"
  let ?v = "vsub forearm_pos shoulder_pos"
  have L: "0 \<le> ?L" using h by (simp add: AnthropometricModel_def)
  show ?thesis
  proof (cases "linalg_norm ?v < 1 / 1000000")
    case True
    have "linalg_norm (0, 0, ?L) = ?L" using L by simp
    with True show ?thesis
      by (simp add: estimate_elbow_position_def vsub_vadd_cancel del: linalg_norm.simps)
  next
    case False
    then have pos: "linalg_norm ?v \<noteq> 0" by simp
    have "linalg_norm (vmul (vdiv ?v (linalg_norm ?v)) ?L) = ?L"
      using L pos by (simp add: linalg_norm_vmul linalg_norm_unit)
    with False show ?thesis
      by (simp add: estimate_elbow_position_def Let_def vsub_vadd_cancel del: linalg_norm.simps)
  qed
qed

theorem elbow_distance_witness:
  "(0::real) \<le> 2
   \<and> estimate_elbow_position (Vec (0, 0, 0)) (Some (Vec (0, 0, 0))) (Some (Vec (1, 1, 1)))
        (upper_arm_length (AnthropometricModel 2)) = Some (Vec (0, 0, 9 / 25))
   \<and> linalg_norm (vsub (0, 0, 9 / 25) (0, 0, 0)) = upper_arm_length (AnthropometricModel 2)"
proof -
  have h: "(0::real) \<le> 2" by simp
  from elbow_distance [OF h, of "(0, 0, 0)" "(0, 0, 0)" "Vec (1, 1, 1)"]
  obtain e where e: "estimate_elbow_position (Vec (0, 0, 0)) (Some (Vec (0, 0, 0)))
        (Some (Vec (1, 1, 1))) (upper_arm_length (AnthropometricModel 2)) = Some (Vec e)"
    and n: "linalg_norm (vsub e (0, 0, 0)) = upper_arm_length (AnthropometricModel 2)"
    by blast
  have c: "estimate_elbow_position (Vec (0, 0, 0)) (Some (Vec (0, 0, 0))) (Some (Vec (1, 1, 1)))
        (upper_arm_length (AnthropometricModel 2)) = Some (Vec (0, 0, 9 / 25))"
    by (simp add: estimate_elbow_position_def AnthropometricModel_def)
  from e c have "e = (0, 0, 9 / 25)" by simp
  with n h c show ?thesis by simp
qed

lemma estimate_elbow_position_None:
  "estimate_elbow_position s f w L = None \<longleftrightarrow> f = None \<or> w = None"
  by (simp add: estimate_elbow_position_def Let_def split: option.splits np_vec.splits)

lemma estimate_elbow_position_Some:
  "(\<exists>e. estimate_elbow_position s f w L = Some e) \<longleftrightarrow> f \<noteq> None \<and> w \<noteq> None"
  using estimate_elbow_position_None [of s f w L] by auto

text \<open>
  Claim C2, as stated, fails: the wrist of the skeleton is the wrist landmark passed
  in, so a side whose forearm landmark is absent and whose wrist landmark is present
  keeps its wrist. Here the left forearm is absent and the left wrist is \<open>(1, 2, 3)\<close>.
\<close>

theorem wrist_kept_without_forearm:
  "\<not> (left_elbow (reconstruct_skeleton (Vec (0, 0, 0)) (0, 0, 0, 1)
                     (Some (Vec (1, 2, 3))) None None None (AnthropometricModel 1.75)) = None
      \<and> left_wrist (reconstruct_skeleton (Vec (0, 0, 0)) (0, 0, 0, 1)
                     (Some (Vec (1, 2, 3))) None None None (AnthropometricModel 1.75)) = None)"
  by (simp add: reconstruct_skeleton_def Let_def UpperBodySkeleton_init_def split: prod.splits)

text \<open>
  Claim C2, amended. A side has no elbow when its forearm landmark or its wrist landmark
  is absent, and has one when both are present; the wrist of each side is the wrist
  landmark as given, present or absent; head, neck, the three spine joints and both
  shoulders are always present.
\<close>

theorem reconstruct_skeleton_presence:
  "let sk = reconstruct_skeleton head_pos head_quat l_wrist r_wrist l_forearm r_forearm body_model
   in (l_forearm = None \<or> l_wrist = None \<longrightarrow> left_elbow sk = None)
    \<and> (r_forearm = None \<or> r_wrist = None \<longrightarrow> right_elbow sk = None)
    \<and> (l_forearm \<noteq> None \<and> l_wrist \<noteq> None \<longrightarrow> left_elbow sk \<noteq> None)
    \<and> (r_forearm \<noteq> None \<and> r_wrist \<noteq> None \<longrightarrow> right_elbow sk \<noteq> None)
    \<and> left_wrist sk = l_wrist \<and> right_wrist sk = r_wrist
    \<and> head sk \<noteq> None \<and> neck sk \<noteq> None \<and> upper_spine sk \<noteq> None \<and> mid_spine sk \<noteq> None
    \<and> lower_spine sk \<noteq> None \<and> left_shoulder sk \<noteq> None \<and> right_shoulder sk \<noteq> None"
  by (simp add: reconstruct_skeleton_def Let_def UpperBodySkeleton_init_def
        estimate_elbow_position_None estimate_elbow_position_Some split: prod.splits)

theorem reconstruct_skeleton_presence_witness:
  "((None :: np_vec option) = None \<or> Some (Vec (1, 2, 3)) = None)
   \<and> left_elbow (reconstruct_skeleton (Vec (0, 0, 0)) (0, 0, 0, 1)
                     (Some (Vec (1, 2, 3))) (Some (Vec (4, 5, 6))) None (Some (Vec (4, 5, 5)))
                     (AnthropometricModel 1.75)) = None
   \<and> left_wrist (reconstruct_skeleton (Vec (0, 0, 0)) (0, 0, 0, 1)
                     (Some (Vec (1, 2, 3))) (Some (Vec (4, 5, 6))) None (Some (Vec (4, 5, 5)))
                     (AnthropometricModel 1.75)) = Some (Vec (1, 2, 3))
   \<and> (Some (Vec (4, 5, 5)) \<noteq> None \<and> Some (Vec (4, 5, 6)) \<noteq> None)
   \<and> right_elbow (reconstruct_skeleton (Vec (0, 0, 0)) (0, 0, 0, 1)
                     (Some (Vec (1, 2, 3))) (Some (Vec (4, 5, 6))) None (Some (Vec (4, 5, 5)))
                     (AnthropometricModel 1.75)) \<noteq> None"
  using reconstruct_skeleton_presence [of "Vec (0, 0, 0)" "(0, 0, 0, 1)"
           "Some (Vec (1, 2, 3))" "Some (Vec (4, 5, 6))" None "Some (Vec (4, 5, 5))"
           "AnthropometricModel 1.75"]
  by (simp add: Let_def)

section \<open>Angles (calculate\_and\_join\_skeleton\_data.py)\<close>

lemma np_clip_bounds: "- 1 \<le> np_clip c (- 1) 1 \<and> np_clip c (- 1) 1 \<le> 1"
  by (simp add: np_clip_def min_def max_def)

lemma degrees_arccos_range:
  assumes "- 1 \<le> c" "c \<le> 1"
  shows "0 \<le> degrees (arccos c) \<and> degrees (arccos c) \<le> 180"
proof -
  have "0 \<le> arccos c" "arccos c \<le> pi"
    using assms by (simp_all add: arccos_lbound arccos_ubound)
  then show ?thesis
    by (simp add: degrees_def divide_le_eq)
qed

lemma calculate_angle_3_points_finite:
  assumes "p1 \<noteq> vertex" "p2 \<noteq> vertex"
  shows "calculate_angle_3_points (Some (Vec p1)) (Some (Vec vertex)) (Some (Vec p2))
           = Inr (Float (degrees (arccos (np_clip
               (dot (vsub p1 vertex) (vsub p2 vertex)
                  / (linalg_norm (vsub p1 vertex) * linalg_norm (vsub p2 vertex))) (- 1) 1))))"
  using assms
  by (simp add: calculate_angle_3_points_def sub_or_raise_def Let_def
        linalg_norm_zero_iff vsub_zero_iff del: linalg_norm.simps)

text \<open>
  Claim C7. For points \<open>p1\<close>, \<open>vertex\<close>, \<open>p2\<close> with \<open>p1 \<noteq> vertex\<close> and
  \<open>p2 \<noteq> vertex\<close> the angle is a number between 0 and 180 degrees; it is 0 when
  \<open>p1 = p2\<close>, and 180 when \<open>p1 - vertex\<close> is a unit vector and \<open>p2 - vertex\<close> is its
  opposite.
\<close>

theorem angle_in_range:
  assumes p1: "p1 \<noteq> vertex" and p2: "p2 \<noteq> vertex"
  shows "\<exists>a. calculate_angle_3_points (Some (Vec p1)) (Some (Vec vertex)) (Some (Vec p2))
                = Inr (Float a)
           \<and> 0 \<le> a \<and> a \<le> 180
           \<and> (p1 = p2 \<longrightarrow> a = 0)
           \<and> (linalg_norm (vsub p1 vertex) = 1 \<and> vsub p2 vertex = vneg (vsub p1 vertex)
                \<longrightarrow> a = 180)"
proof -
  let ?a = "vsub p1 vertex" and ?b = "vsub p2 vertex"
  let ?c = "dot ?a ?b / (linalg_norm ?a * linalg_norm ?b)"
  let ?r = "degrees (arccos (np_clip ?c (- 1) 1))"
  have e: "calculate_angle_3_points (Some (Vec p1)) (Some (Vec vertex)) (Some (Vec p2))
             = Inr (Float ?r)"
    by (rule calculate_angle_3_points_finite [OF p1 p2])
  have r: "0 \<le> ?r \<and> ?r \<le> 180"
    using np_clip_bounds [of ?c] by (intro degrees_arccos_range) simp_all
  have same: "?r = 0" if "p1 = p2"
  proof -
    have "linalg_norm ?a \<noteq> 0" using p1 by (simp add: linalg_norm_zero_iff vsub_zero_iff del: linalg_norm.simps)
    moreover have "?b = ?a" using that by simp
    ultimately have c: "?c = 1" by (simp add: dot_self power2_eq_square del: linalg_norm.simps)
    show ?thesis unfolding c by (simp add: np_clip_def degrees_def)
  qed
  have opp: "?r = 180" if "linalg_norm ?a = 1" "?b = vneg ?a"
  proof -
    have c: "?c = - 1" using that by (simp add: dot_vneg dot_self linalg_norm_vneg)
    show ?thesis unfolding c by (simp add: np_clip_def degrees_def)
  qed
  from e r same opp show ?thesis by blast
qed

theorem angle_in_range_witness:
  "((1, 0, 0) \<noteq> ((0, 0, 0) :: vec3) \<and> (1, 0, 0) = ((1, 0, 0) :: vec3)
     \<and> calculate_angle_3_points (Some (Vec (1, 0, 0))) (Some (Vec (0, 0, 0))) (Some (Vec (1, 0, 0)))
         = Inr (Float 0))
   \<and> ((1, 0, 0) \<noteq> ((0, 0, 0) :: vec3) \<and> (- 1, 0, 0) \<noteq> ((0, 0, 0) :: vec3)
     \<and> linalg_norm (vsub (1, 0, 0) (0, 0, 0)) = 1
     \<and> vsub (- 1, 0, 0) (0, 0, 0) = vneg (vsub (1, 0, 0) (0, 0, 0))
     \<and> calculate_angle_3_points (Some (Vec (1, 0, 0))) (Some (Vec (0, 0, 0))) (Some (Vec (- 1, 0, 0)))
         = Inr (Float 180))"
proof -
  have n: "(1, 0, 0) \<noteq> ((0, 0, 0) :: vec3)" "(- 1, 0, 0) \<noteq> ((0, 0, 0) :: vec3)" by simp_all
  have u: "linalg_norm (vsub (1, 0, 0) (0, 0, 0)) = 1"
    "vsub (- 1, 0, 0) (0, 0, 0) = vneg (vsub (1, 0, 0) (0, 0, 0))" by simp_all
  from angle_in_range [OF n(1) n(1)]
  have a: "calculate_angle_3_points (Some (Vec (1, 0, 0))) (Some (Vec (0, 0, 0))) (Some (Vec (1, 0, 0)))
         = Inr (Float 0)" by auto
  from angle_in_range [OF n(1) n(2)] u
  have b: "calculate_angle_3_points (Some (Vec (1, 0, 0))) (Some (Vec (0, 0, 0))) (Some (Vec (- 1, 0, 0)))
         = Inr (Float 180)" by auto
  from n u a b show ?thesis by simp
qed

lemma calculate_angle_3_points_raises:
  "isl (calculate_angle_3_points p1 p2 p3) \<longleftrightarrow> p1 = None \<or> p2 = None \<or> p3 = None"
  by (simp add: calculate_angle_3_points_def sub_or_raise_def split: option.splits)

lemma calculate_angle_3_points_error:
  "calculate_angle_3_points p1 p2 p3 = Inl e \<Longrightarrow> e = TypeError"
  by (simp add: calculate_angle_3_points_def sub_or_raise_def split: option.splits)

lemma angle_statement_eq:
  "angle_statement joints angles name k1 k2 k3 =
     (if angle_raises joints k1 k2 k3 then Inl TypeError
      else case angle_of joints k1 k2 k3 of None \<Rightarrow> Inr angles | Some a \<Rightarrow> Inr (angles(name \<mapsto> a)))"
  by (auto simp add: angle_statement_def angle_raises_def angle_of_def
        dest: calculate_angle_3_points_error split: sum.splits)

lemma skeleton_angles_left_elbow:
  "calculate_skeleton_angles joints ''left_elbow_angle'' =
     (if angle_raises joints ''left_shoulder'' ''left_elbow'' ''left_wrist'' then None
      else angle_of joints ''left_shoulder'' ''left_elbow'' ''left_wrist'')"
  unfolding calculate_skeleton_angles_def Let_def angle_statement_eq
  by (simp split: option.splits)

lemma skeleton_angles_right_elbow:
  "calculate_skeleton_angles joints ''right_elbow_angle'' =
     (if angle_raises joints ''left_shoulder'' ''left_elbow'' ''left_wrist''
       \<or> angle_raises joints ''right_shoulder'' ''right_elbow'' ''right_wrist'' then None
      else angle_of joints ''right_shoulder'' ''right_elbow'' ''right_wrist'')"
  unfolding calculate_skeleton_angles_def Let_def angle_statement_eq
  by (simp split: option.splits)

lemma skeleton_angles_left_shoulder:
  "calculate_skeleton_angles joints ''left_shoulder_angle'' =
     (if angle_raises joints ''left_shoulder'' ''left_elbow'' ''left_wrist''
       \<or> angle_raises joints ''right_shoulder'' ''right_elbow'' ''right_wrist''
       \<or> angle_raises joints ''upper_spine'' ''left_shoulder'' ''left_elbow'' then None
      else angle_of joints ''upper_spine'' ''left_shoulder'' ''left_elbow'')"
  unfolding calculate_skeleton_angles_def Let_def angle_statement_eq
  by (simp split: option.splits)

lemma skeleton_angles_right_shoulder:
  "calculate_skeleton_angles joints ''right_shoulder_angle'' =
     (if angle_raises joints ''left_shoulder'' ''left_elbow'' ''left_wrist''
       \<or> angle_raises joints ''right_shoulder'' ''right_elbow'' ''right_wrist''
       \<or> angle_raises joints ''upper_spine'' ''left_shoulder'' ''left_elbow''
       \<or> angle_raises joints ''upper_spine'' ''right_shoulder'' ''right_elbow'' then None
      else angle_of joints ''upper_spine'' ''right_shoulder'' ''right_elbow'')"
  unfolding calculate_skeleton_angles_def Let_def angle_statement_eq
  by (simp split: option.splits)

lemma skeleton_angles_spine_bend:
  "calculate_skeleton_angles joints ''spine_bend_angle'' =
     (if angle_raises joints ''left_shoulder'' ''left_elbow'' ''left_wrist''
       \<or> angle_raises joints ''right_shoulder'' ''right_elbow'' ''right_wrist''
       \<or> angle_raises joints ''upper_spine'' ''left_shoulder'' ''left_elbow''
       \<or> angle_raises joints ''upper_spine'' ''right_shoulder'' ''right_elbow''
       \<or> angle_raises joints ''neck'' ''mid_spine'' ''lower_spine'' then None
      else angle_of joints ''neck'' ''mid_spine'' ''lower_spine'')"
  unfolding calculate_skeleton_angles_def Let_def angle_statement_eq
  by (simp split: option.splits)

lemma angle_opposite:
  assumes d: "linalg_norm d = 1" and st: "s * t < 0"
    and v1: "vsub p1 v = vmul d s" and v2: "vsub p2 v = vmul d t"
  shows "calculate_angle_3_points (Some (Vec p1)) (Some (Vec v)) (Some (Vec p2)) = Inr (Float 180)"
proof -
  have n: "linalg_norm (vmul d s) = \<bar>s\<bar>" "linalg_norm (vmul d t) = \<bar>t\<bar>"
    using d by (simp_all add: linalg_norm_vmul)
  have abs: "\<bar>s\<bar> * \<bar>t\<bar> = - (s * t)"
    using st by (simp add: abs_mult [symmetric])
  have ne: "- (s * t) \<noteq> 0" using st by linarith
  have quot: "x * 1\<^sup>2 / (- x) = - 1" if "- x \<noteq> 0" for x :: real
    using that by simp
  have c: "dot (vmul d s) (vmul d t) / (linalg_norm (vmul d s) * linalg_norm (vmul d t)) = - 1"
    unfolding n dot_vmul d abs by (rule quot [OF ne])
  from ne have nz: "linalg_norm (vmul d s) * linalg_norm (vmul d t) \<noteq> 0"
    unfolding n abs .
  show ?thesis
    unfolding calculate_angle_3_points_def sub_or_raise_def
    using nz by (simp add: v1 v2 c Let_def np_clip_def degrees_def del: linalg_norm.simps)
qed

lemma SkeletonCalculator_reconstruct_skeleton_spine:
  assumes "SkeletonCalculator_reconstruct_skeleton body_model head_pos head_quat
             l_wrist r_wrist l_forearm r_forearm = Inr joints"
  shows "joints ''neck'' = Some (Some (estimate_neck_position head_pos head_quat body_model))"
    and "joints ''mid_spine'' = Some (Some (fst (snd (estimate_spine_positions
            (estimate_neck_position head_pos head_quat body_model) head_quat body_model))))"
    and "joints ''lower_spine'' = Some (Some (snd (snd (estimate_spine_positions
            (estimate_neck_position head_pos head_quat body_model) head_quat body_model))))"
  using assms
  by (auto simp add: SkeletonCalculator_reconstruct_skeleton_def Let_def
        split: prod.splits sum.splits)

text \<open>
  Claim C10. For a finite head position, a head orientation of unit norm (or, more
  generally, one whose down column of the rotation matrix is not the zero vector) and
  a model built from a height that is not zero: in the joints of
  \<open>SkeletonCalculator.reconstruct_skeleton\<close> the neck, the mid spine and the lower spine
  lie on one line along the unit down vector, the mid spine \<open>0.2 * height\<close> beyond
  the neck and the lower spine \<open>0.1 * height\<close> beyond the mid spine, and whenever
  \<open>spine_bend_angle\<close> is computed it is exactly 180 degrees.
\<close>

theorem spine_bend_angle_is_180:
  assumes q: "qx\<^sup>2 + qy\<^sup>2 + qz\<^sup>2 + qw\<^sup>2 = 1
              \<or> column1 (quaternion_to_rotation_matrix (qx, qy, qz, qw)) \<noteq> (0, 0, 0)"
    and h: "height_m \<noteq> 0"
    and rec: "SkeletonCalculator_reconstruct_skeleton (AnthropometricModel height_m)
                (Vec head_pos) (qx, qy, qz, qw) l_wrist r_wrist l_forearm r_forearm = Inr joints"
    and ang: "calculate_skeleton_angles joints ''spine_bend_angle'' = Some a"
  shows "\<exists>d n m l. get_down_vector (qx, qy, qz, qw) = Vec d \<and> linalg_norm d = 1
           \<and> joints ''neck'' = Some (Some (Vec n))
           \<and> joints ''mid_spine'' = Some (Some (Vec m))
           \<and> joints ''lower_spine'' = Some (Some (Vec l))
           \<and> vsub m n = vmul d (0.2 * height_m) \<and> vsub l m = vmul d (0.1 * height_m)
           \<and> a = Float 180"
proof -
  let ?q = "(qx, qy, qz, qw)"
  let ?bm = "AnthropometricModel height_m"
  let ?c = "vneg (column1 (quaternion_to_rotation_matrix ?q))"
  let ?d = "vdiv ?c (linalg_norm ?c)"
  let ?n = "vadd head_pos (vmul ?d (0.05 * height_m))"
  let ?m = "vadd (vadd ?n (vmul ?d (0.1 * height_m))) (vmul ?d (0.1 * height_m))"
  let ?l = "vadd ?m (vmul ?d (0.1 * height_m))"
  have nz: "linalg_norm ?c \<noteq> 0" by (rule down_vector_defined [OF q])
  have nd: "linalg_norm ?d = 1" by (rule linalg_norm_unit [OF nz])
  have d: "get_down_vector ?q = Vec ?d"
    using nz by (simp add: get_down_vector_def Let_def div_by_norm_def)
  have neck: "estimate_neck_position (Vec head_pos) ?q ?bm = Vec ?n"
    unfolding estimate_neck_position_def Let_def d by (simp add: AnthropometricModel_def)
  have spine: "estimate_spine_positions (Vec ?n) ?q ?bm
                 = (Vec (vadd ?n (vmul ?d (0.1 * height_m))), Vec ?m, Vec ?l)"
    unfolding estimate_spine_positions_def Let_def d by (simp add: AnthropometricModel_def)
  note j = SkeletonCalculator_reconstruct_skeleton_spine [OF rec, unfolded neck spine]
  have jn: "joints ''neck'' = Some (Some (Vec ?n))"
    and jm: "joints ''mid_spine'' = Some (Some (Vec ?m))"
    and jl: "joints ''lower_spine'' = Some (Some (Vec ?l))"
    using j by simp_all
  have v1: "vsub ?n ?m = vmul ?d (- (0.1 * height_m + 0.1 * height_m))"
    by (rule vsub_two_steps)
  have v2: "vsub ?l ?m = vmul ?d (0.1 * height_m)"
    by (rule vsub_vadd_cancel)
  have "0 < height_m * height_m" using h by (auto simp add: zero_less_mult_iff)
  then have st: "- (0.1 * height_m + 0.1 * height_m) * (0.1 * height_m) < 0"
    by (simp add: algebra_simps)
  have "calculate_angle_3_points (Some (Vec ?n)) (Some (Vec ?m)) (Some (Vec ?l)) = Inr (Float 180)"
    by (rule angle_opposite [OF nd st v1 v2])
  then have "angle_of joints ''neck'' ''mid_spine'' ''lower_spine'' = Some (Float 180)"
    unfolding angle_of_def jn jm jl by simp
  with ang have a: "a = Float 180"
    unfolding skeleton_angles_spine_bend by (simp split: if_splits)
  have mn: "vsub ?m ?n = vmul ?d (0.2 * height_m)"
    by (cases head_pos, cases ?d) (simp add: algebra_simps)
  from d nd jn jm jl mn v2 a show ?thesis by blast
qed

lemma SkeletonCalculator_reconstruct_skeleton_values:
  assumes "SkeletonCalculator_reconstruct_skeleton body_model head_pos head_quat
             l_wrist r_wrist l_forearm r_forearm = Inr joints"
  shows "joints ''left_wrist'' = Some l_wrist" and "joints ''right_wrist'' = Some r_wrist"
    and "\<exists>v. joints ''left_shoulder'' = Some (Some v)"
    and "\<exists>v. joints ''right_shoulder'' = Some (Some v)"
    and "\<exists>v. joints ''left_elbow'' = Some (Some v)"
    and "\<exists>v. joints ''right_elbow'' = Some (Some v)"
    and "\<exists>v. joints ''upper_spine'' = Some (Some v)"
  using assms
  by (auto simp add: SkeletonCalculator_reconstruct_skeleton_def Let_def
        split: prod.splits sum.splits)

lemma SkeletonCalculator_reconstruct_skeleton_succeeds:
  "\<exists>joints. SkeletonCalculator_reconstruct_skeleton body_model head_pos head_quat
             l_wrist r_wrist (Some l_forearm) (Some r_forearm) = Inr joints"
  by (simp add: SkeletonCalculator_reconstruct_skeleton_def Let_def
        SkeletonCalculator_estimate_elbow_position_def sub_or_raise_def split: prod.splits)

lemma angle_raises_iff:
  "angle_raises joints k1 k2 k3 \<longleftrightarrow>
     joints k1 \<noteq> None \<and> joints k2 \<noteq> None \<and> joints k3 \<noteq> None
     \<and> (joints k1 = Some None \<or> joints k2 = Some None \<or> joints k3 = Some None)"
  by (auto simp add: angle_raises_def calculate_angle_3_points_raises)

theorem spine_bend_angle_is_180_witness:
  "((0::real)\<^sup>2 + 0\<^sup>2 + 0\<^sup>2 + 1\<^sup>2 = 1
     \<or> column1 (quaternion_to_rotation_matrix (0, 0, 0, 1)) \<noteq> (0, 0, 0))
   \<and> (1::real) \<noteq> 0
   \<and> (\<exists>joints. SkeletonCalculator_reconstruct_skeleton (AnthropometricModel 1)
          (Vec (0, 0, 0)) (0, 0, 0, 1) (Some (Vec (- 1, - 1, 1))) (Some (Vec (1, - 1, 1)))
          (Some (Vec (- 1, - 1, 0))) (Some (Vec (1, - 1, 0))) = Inr joints
        \<and> calculate_skeleton_angles joints ''spine_bend_angle'' = Some (Float 180))"
proof -
  have u: "(0::real)\<^sup>2 + 0\<^sup>2 + 0\<^sup>2 + 1\<^sup>2 = 1
     \<or> column1 (quaternion_to_rotation_matrix (0, 0, 0, 1)) \<noteq> (0, 0, 0)"
    and h: "(1::real) \<noteq> 0" by simp_all
  obtain joints where rec: "SkeletonCalculator_reconstruct_skeleton (AnthropometricModel 1)
          (Vec (0, 0, 0)) (0, 0, 0, 1) (Some (Vec (- 1, - 1, 1))) (Some (Vec (1, - 1, 1)))
          (Some (Vec (- 1, - 1, 0))) (Some (Vec (1, - 1, 0))) = Inr joints"
    using SkeletonCalculator_reconstruct_skeleton_succeeds by blast
  note v = SkeletonCalculator_reconstruct_skeleton_values [OF rec]
    SkeletonCalculator_reconstruct_skeleton_spine [OF rec]
  have no: "\<not> angle_raises joints ''left_shoulder'' ''left_elbow'' ''left_wrist''"
    "\<not> angle_raises joints ''right_shoulder'' ''right_elbow'' ''right_wrist''"
    "\<not> angle_raises joints ''upper_spine'' ''left_shoulder'' ''left_elbow''"
    "\<not> angle_raises joints ''upper_spine'' ''right_shoulder'' ''right_elbow''"
    "\<not> angle_raises joints ''neck'' ''mid_spine'' ''lower_spine''"
    using v unfolding angle_raises_iff by auto
  have "angle_of joints ''neck'' ''mid_spine'' ''lower_spine'' \<noteq> None"
    using v(8-10) by (simp add: angle_of_def calculate_angle_3_points_def sub_or_raise_def)
  then obtain a where a: "calculate_skeleton_angles joints ''spine_bend_angle'' = Some a"
    unfolding skeleton_angles_spine_bend using no by auto
  from spine_bend_angle_is_180 [OF u h rec a] have "a = Float 180" by blast
  with u h rec a show ?thesis by blast
qed

lemma zero_length_vector_gives_nan:
  "calculate_angle_3_points (Some (Vec vertex)) (Some (Vec vertex)) (Some (Vec p3)) = Inr NaN"
  by (simp add: calculate_angle_3_points_def sub_or_raise_def linalg_norm_zero_iff vsub_zero_iff
        del: linalg_norm.simps)

text \<open>
  Claim C8, as stated, fails. Here the left wrist is \<open>None\<close>, so the first statement,
  for \<open>left_elbow_angle\<close>, raises TypeError. The joints of \<open>spine_bend_angle\<close> are all
  present and its computation gives 180 degrees, yet it is not returned: the exception
  left the \<open>try\<close> block before its statement was reached.
\<close>

theorem later_angles_lost_after_failure:
  "calculate_angle_3_points (Some (Vec (0, 0, 0))) (Some (Vec (0, - 1, 0))) (Some (Vec (0, - 2, 0)))
     = Inr (Float 180)
   \<and> calculate_skeleton_angles
       (map_of [(''left_shoulder'', Some (Vec (- 1, 0, 0))), (''left_elbow'', Some (Vec (- 1, - 1, 0))),
                (''left_wrist'', None),
                (''neck'', Some (Vec (0, 0, 0))), (''mid_spine'', Some (Vec (0, - 1, 0))),
                (''lower_spine'', Some (Vec (0, - 2, 0)))])
       ''spine_bend_angle'' = None"
proof -
  have "calculate_angle_3_points (Some (Vec (0, 0, 0))) (Some (Vec (0, - 1, 0))) (Some (Vec (0, - 2, 0)))
     = Inr (Float 180)"
    by (rule angle_opposite [of "(0, - 1, 0)" "- 1" 1]) simp_all
  moreover have "calculate_skeleton_angles
       (map_of [(''left_shoulder'', Some (Vec (- 1, 0, 0))), (''left_elbow'', Some (Vec (- 1, - 1, 0))),
                (''left_wrist'', None),
                (''neck'', Some (Vec (0, 0, 0))), (''mid_spine'', Some (Vec (0, - 1, 0))),
                (''lower_spine'', Some (Vec (0, - 2, 0)))])
       ''spine_bend_angle'' = None"
    unfolding skeleton_angles_spine_bend angle_raises_iff by simp
  ultimately show ?thesis by simp
qed

text \<open>
  Claim C8, amended. \<open>calculate_skeleton_angles\<close> always returns a dictionary of angles.
  The statements run in the order left elbow, right elbow, left shoulder, right
  shoulder, spine bend. An angle is returned exactly when its three joints are in the
  dictionary and neither its own statement nor an earlier one raises; its value is then
  the one \<open>calculate_angle_3_points\<close> computes. So an exception omits the angle that
  raised and every later one, and keeps the earlier ones. A zero-length vector does not
  raise: the angle is stored as NaN.
\<close>

theorem calculate_skeleton_angles_order:
  "calculate_skeleton_angles joints ''left_elbow_angle'' =
     (if angle_raises joints ''left_shoulder'' ''left_elbow'' ''left_wrist'' then None
      else angle_of joints ''left_shoulder'' ''left_elbow'' ''left_wrist'')
   \<and> calculate_skeleton_angles joints ''right_elbow_angle'' =
     (if angle_raises joints ''left_shoulder'' ''left_elbow'' ''left_wrist''
       \<or> angle_raises joints ''right_shoulder'' ''right_elbow'' ''right_wrist'' then None
      else angle_of joints ''right_shoulder'' ''right_elbow'' ''right_wrist'')
   \<and> calculate_skeleton_angles joints ''left_shoulder_angle'' =
     (if angle_raises joints ''left_shoulder'' ''left_elbow'' ''left_wrist''
       \<or> angle_raises joints ''right_shoulder'' ''right_elbow'' ''right_wrist''
       \<or> angle_raises joints ''upper_spine'' ''left_shoulder'' ''left_elbow'' then None
      else angle_of joints ''upper_spine'' ''left_shoulder'' ''left_elbow'')
   \<and> calculate_skeleton_angles joints ''right_shoulder_angle'' =
     (if angle_raises joints ''left_shoulder'' ''left_elbow'' ''left_wrist''
       \<or> angle_raises joints ''right_shoulder'' ''right_elbow'' ''right_wrist''
       \<or> angle_raises joints ''upper_spine'' ''left_shoulder'' ''left_elbow''
       \<or> angle_raises joints ''upper_spine'' ''right_shoulder'' ''right_elbow'' then None
      else angle_of joints ''upper_spine'' ''right_shoulder'' ''right_elbow'')
   \<and> calculate_skeleton_angles joints ''spine_bend_angle'' =
     (if angle_raises joints ''left_shoulder'' ''left_elbow'' ''left_wrist''
       \<or> angle_raises joints ''right_shoulder'' ''right_elbow'' ''right_wrist''
       \<or> angle_raises joints ''upper_spine'' ''left_shoulder'' ''left_elbow''
       \<or> angle_raises joints ''upper_spine'' ''right_shoulder'' ''right_elbow''
       \<or> angle_raises joints ''neck'' ''mid_spine'' ''lower_spine'' then None
      else angle_of joints ''neck'' ''mid_spine'' ''lower_spine'')
   \<and> calculate_angle_3_points (Some (Vec vertex)) (Some (Vec vertex)) (Some (Vec p3)) = Inr NaN"
  by (intro conjI skeleton_angles_left_elbow skeleton_angles_right_elbow
        skeleton_angles_left_shoulder skeleton_angles_right_shoulder skeleton_angles_spine_bend
        zero_length_vector_gives_nan)

section \<open>Resampling the head pose (calc\_body.py)\<close>

lemma np_min_Min: "xs \<noteq> [] \<Longrightarrow> np_min xs = Inr (Min (set xs))"
proof (cases xs)
  case (Cons x ys)
  then show ?thesis unfolding Cons Min.set_eq_fold by simp
qed simp

lemma np_max_Max: "xs \<noteq> [] \<Longrightarrow> np_max xs = Inr (Max (set xs))"
proof (cases xs)
  case (Cons x ys)
  then show ?thesis unfolding Cons Max.set_eq_fold by simp
qed simp

lemma Min_le_Max_list: "xs \<noteq> [] \<Longrightarrow> Min (set xs) \<le> Max (set (xs :: real list))"
  by (simp add: Min_le_iff)

lemma np_clip_is_nearest:
  "lo \<le> hi \<Longrightarrow> np_clip t lo hi = (if t < lo then lo else if hi < t then hi else t)"
  by (simp add: np_clip_def min_def max_def)

lemma np_clip_idem: "lo \<le> hi \<Longrightarrow> np_clip (np_clip t lo hi) lo hi = np_clip t lo hi"
  by (simp add: np_clip_def min_def max_def)

lemma np_clip_in_range: "lo \<le> hi \<Longrightarrow> lo \<le> np_clip t lo hi \<and> np_clip t lo hi \<le> hi"
  by (simp add: np_clip_def min_def max_def)

lemma interpolate_head_data_eq:
  assumes mn: "np_min (map (\<lambda>(t, p, q). t) device_data) = Inr lo"
    and mx: "np_max (map (\<lambda>(t, p, q). t) device_data) = Inr hi"
  shows "interpolate_head_data interp1d Slerp device_data hand_timestamps =
     (case interp1d (map (\<lambda>(t, p, q). t) device_data) (map (\<lambda>(t, (x, y, z), q). x) device_data) of
        Inl e \<Rightarrow> Inl e
      | Inr fx \<Rightarrow>
     (case interp1d (map (\<lambda>(t, p, q). t) device_data) (map (\<lambda>(t, (x, y, z), q). y) device_data) of
        Inl e \<Rightarrow> Inl e
      | Inr fy \<Rightarrow>
     (case interp1d (map (\<lambda>(t, p, q). t) device_data) (map (\<lambda>(t, (x, y, z), q). z) device_data) of
        Inl e \<Rightarrow> Inl e
      | Inr fz \<Rightarrow>
     (case Slerp (map (\<lambda>(t, p, q). t) device_data) (map (\<lambda>(t, p, q). q) device_data) of
        Inl e \<Rightarrow> Inl e
      | Inr s \<Rightarrow>
          Inr (map (\<lambda>t. (fx (np_clip t lo hi), fy (np_clip t lo hi), fz (np_clip t lo hi)))
                 hand_timestamps,
               map (\<lambda>t. s (np_clip t lo hi)) hand_timestamps)))))"
proof -
  have cols: "map (\<lambda>(x, y, z). x) (map (\<lambda>(t, p, q). p) device_data) = map (\<lambda>(t, (x, y, z), q). x) device_data"
    "map (\<lambda>(x, y, z). y) (map (\<lambda>(t, p, q). p) device_data) = map (\<lambda>(t, (x, y, z), q). y) device_data"
    "map (\<lambda>(x, y, z). z) (map (\<lambda>(t, p, q). p) device_data) = map (\<lambda>(t, (x, y, z), q). z) device_data"
    by auto
  show ?thesis
    unfolding interpolate_head_data_def Let_def mn mx cols
    by (simp add: o_def split: sum.splits)
qed

text \<open>
  Claim C4. For a source stream that is not empty and any interpolators: the result for a
  list of query timestamps is the result for the same list with every query below the
  minimum source timestamp replaced by the minimum, and every query above the maximum
  by the maximum. When the result is a pair of lists, its positions and orientations are
  the values of the interpolants that the constructors returned, taken at these clamped
  timestamps, which all lie between the minimum and the maximum: no interpolant is
  evaluated outside the source time range.
\<close>

theorem queries_clamped:
  assumes ne: "device_data \<noteq> []"
  shows "let ts = map (\<lambda>(t, p, q). t) device_data;
             lo = Min (set ts); hi = Max (set ts);
             nearest = (\<lambda>t. if t < lo then lo else if hi < t then hi else t)
         in interpolate_head_data interp1d Slerp device_data hand_timestamps
              = interpolate_head_data interp1d Slerp device_data (map nearest hand_timestamps)
          \<and> (\<forall>positions orientations.
               interpolate_head_data interp1d Slerp device_data hand_timestamps
                 = Inr (positions, orientations) \<longrightarrow>
               (\<exists>fx fy fz s.
                  interp1d ts (map (\<lambda>(t, (x, y, z), q). x) device_data) = Inr fx
                \<and> interp1d ts (map (\<lambda>(t, (x, y, z), q). y) device_data) = Inr fy
                \<and> interp1d ts (map (\<lambda>(t, (x, y, z), q). z) device_data) = Inr fz
                \<and> Slerp ts (map (\<lambda>(t, p, q). q) device_data) = Inr s
                \<and> positions = map (\<lambda>t. (fx (nearest t), fy (nearest t), fz (nearest t))) hand_timestamps
                \<and> orientations = map (\<lambda>t. s (nearest t)) hand_timestamps
                \<and> (\<forall>t \<in> set hand_timestamps. lo \<le> nearest t \<and> nearest t \<le> hi)))"
proof -
  define ts where "ts = map (\<lambda>(t, p, q). t) device_data"
  define lo where "lo = Min (set ts)"
  define hi where "hi = Max (set ts)"
  have tne: "ts \<noteq> []" using ne by (simp add: ts_def)
  have le: "lo \<le> hi" unfolding lo_def hi_def by (rule Min_le_Max_list [OF tne])
  have mn: "np_min (map (\<lambda>(t, p, q). t) device_data) = Inr lo"
    unfolding lo_def ts_def [symmetric] by (rule np_min_Min [OF tne])
  have mx: "np_max (map (\<lambda>(t, p, q). t) device_data) = Inr hi"
    unfolding hi_def ts_def [symmetric] by (rule np_max_Max [OF tne])
  note eq = interpolate_head_data_eq [OF mn mx]
  have near: "(if t < lo then lo else if hi < t then hi else t) = np_clip t lo hi" for t
    by (rule np_clip_is_nearest [OF le, symmetric])
  have "interpolate_head_data interp1d Slerp device_data hand_timestamps
      = interpolate_head_data interp1d Slerp device_data (map (\<lambda>t. np_clip t lo hi) hand_timestamps)"
    unfolding eq by (simp add: o_def np_clip_idem [OF le] split: sum.splits)
  moreover have "\<exists>fx fy fz s.
        interp1d ts (map (\<lambda>(t, (x, y, z), q). x) device_data) = Inr fx
      \<and> interp1d ts (map (\<lambda>(t, (x, y, z), q). y) device_data) = Inr fy
      \<and> interp1d ts (map (\<lambda>(t, (x, y, z), q). z) device_data) = Inr fz
      \<and> Slerp ts (map (\<lambda>(t, p, q). q) device_data) = Inr s
      \<and> positions = map (\<lambda>t. (fx (np_clip t lo hi), fy (np_clip t lo hi), fz (np_clip t lo hi))) hand_timestamps
      \<and> orientations = map (\<lambda>t. s (np_clip t lo hi)) hand_timestamps"
    if "interpolate_head_data interp1d Slerp device_data hand_timestamps = Inr (positions, orientations)"
    for positions orientations
    using that unfolding eq ts_def by (auto split: sum.splits)
  ultimately show ?thesis
    unfolding Let_def near ts_def [symmetric] lo_def [symmetric] hi_def [symmetric]
    using np_clip_in_range [OF le] by blast
qed

theorem queries_clamped_witness:
  "[(0, (0, 0, 0), (0, 0, 0, 1)), (1, (0, 0, 1), (0, 0, 0, 1))] \<noteq> ([] :: device_row list)
   \<and> interpolate_head_data
        (\<lambda>xs ys. Inr (\<lambda>t. hd ys + (t - hd xs) * (last ys - hd ys) / (last xs - hd xs)))
        (\<lambda>ts qs. Inr (\<lambda>t. hd qs))
        [(0, (0, 0, 0), (0, 0, 0, 1)), (1, (0, 0, 1), (0, 0, 0, 1))] [5, - 2]
     = interpolate_head_data
        (\<lambda>xs ys. Inr (\<lambda>t. hd ys + (t - hd xs) * (last ys - hd ys) / (last xs - hd xs)))
        (\<lambda>ts qs. Inr (\<lambda>t. hd qs))
        [(0, (0, 0, 0), (0, 0, 0, 1)), (1, (0, 0, 1), (0, 0, 0, 1))] [1, 0]
   \<and> interpolate_head_data
        (\<lambda>xs ys. Inr (\<lambda>t. hd ys + (t - hd xs) * (last ys - hd ys) / (last xs - hd xs)))
        (\<lambda>ts qs. Inr (\<lambda>t. hd qs))
        [(0, (0, 0, 0), (0, 0, 0, 1)), (1, (0, 0, 1), (0, 0, 0, 1))] [5, - 2]
     = Inr ([(0, 0, 1), (0, 0, 0)], [(0, 0, 0, 1), (0, 0, 0, 1)])"
proof -
  let ?dev = "[(0, (0, 0, 0), (0, 0, 0, 1)), (1, (0, 0, 1), (0, 0, 0, 1))] :: device_row list"
  let ?I = "\<lambda>(xs :: real list) (ys :: real list).
              (Inr (\<lambda>t. hd ys + (t - hd xs) * (last ys - hd ys) / (last xs - hd xs))
                 :: py_error + (real \<Rightarrow> real))"
  let ?S = "\<lambda>(ts :: real list) (qs :: quat list). (Inr (\<lambda>t. hd qs) :: py_error + (real \<Rightarrow> quat))"
  have ne: "?dev \<noteq> []" by simp
  have a: "interpolate_head_data ?I ?S ?dev [5, - 2] = interpolate_head_data ?I ?S ?dev [1, 0]"
    using queries_clamped [OF ne, of ?I ?S "[5, - 2]"] by (simp add: Let_def)
  have b: "interpolate_head_data ?I ?S ?dev [1, 0]
             = Inr ([(0, 0, 1), (0, 0, 0)], [(0, 0, 0, 1), (0, 0, 0, 1)])"
    by (simp add: interpolate_head_data_def np_clip_def)
  from ne a b show ?thesis by simp
qed

subsection \<open>What the function itself decides about failure\<close>

text \<open>
  The function checks neither the number of samples nor their order. It raises on an
  empty source stream, where the minimum is undefined; on any other stream it returns
  exactly when the three \<open>interp1d\<close> constructors and the \<open>Slerp\<close> constructor
  return, and then with one position and one orientation per query timestamp. A query
  at a source timestamp is not moved by the clip.
\<close>

lemma interpolate_head_data_empty:
  "interpolate_head_data interp1d Slerp [] hand_timestamps = Inl ValueError"
  by (simp add: interpolate_head_data_def)

lemma interpolate_head_data_returns_iff:
  assumes ne: "device_data \<noteq> []"
  shows "isl (interpolate_head_data interp1d Slerp device_data hand_timestamps) \<longleftrightarrow>
           isl (interp1d (map (\<lambda>(t, p, q). t) device_data) (map (\<lambda>(t, (x, y, z), q). x) device_data))
         \<or> isl (interp1d (map (\<lambda>(t, p, q). t) device_data) (map (\<lambda>(t, (x, y, z), q). y) device_data))
         \<or> isl (interp1d (map (\<lambda>(t, p, q). t) device_data) (map (\<lambda>(t, (x, y, z), q). z) device_data))
         \<or> isl (Slerp (map (\<lambda>(t, p, q). t) device_data) (map (\<lambda>(t, p, q). q) device_data))"
proof -
  have tne: "map (\<lambda>(t, p, q). t) device_data \<noteq> []" using ne by simp
  show ?thesis
    unfolding interpolate_head_data_eq [OF np_min_Min [OF tne] np_max_Max [OF tne]]
    by (simp split: sum.splits)
qed

lemma interpolate_head_data_lengths:
  assumes "interpolate_head_data interp1d Slerp device_data hand_timestamps
             = Inr (head_positions, head_orientations)"
  shows "length head_positions = length hand_timestamps
       \<and> length head_orientations = length hand_timestamps"
  using assms
  by (auto simp add: interpolate_head_data_def Let_def split: sum.splits)

lemma source_timestamp_not_clipped:
  assumes "t \<in> set ts"
  shows "np_clip t (Min (set ts)) (Max (set ts)) = t"
proof -
  have "Min (set ts) \<le> t" "t \<le> Max (set ts)" using assms by simp_all
  then show ?thesis by (simp add: np_clip_def)
qed

section \<open>Aligning the hand streams (calc\_body.py)\<close>

lemma organize_right_only:
  "map (\<lambda>row_data. (row_data ''t_mono'', row_data ''forearmWrist_px_right'',
                     row_data ''forearmWrist_px_left'', row_data ''t_wall_right''))
     (organize [\<lparr>t_mono = 1, chirality = ''right'',
        cells = [(''t_wall'', Num 100), (''forearmWrist_px'', Num 7),
                 (''forearmWrist_py'', Num 8), (''forearmWrist_pz'', Num 9)]\<rparr>])
   = [(Some (Num 1), Some (Num 7), None, None)]"
  by (simp add: organize_def unique_def hand_dicts_def add_hand_columns_def row_items_def)

text \<open>
  Claim C6 at a stream pair whose left side never reports: one right-hand row at
  timestamp 1. The organized frame has the record for timestamp 1 with the right-hand
  columns (lemma above), but it has no column \<open>forearmWrist_px_left\<close>, and the summary
  line that selects this column raises KeyError: the function returns no records.
\<close>

theorem one_sided_stream_raises:
  "load_and_organize_data device_data
     [\<lparr>t_mono = 1, chirality = ''right'',
        cells = [(''t_wall'', Num 100), (''forearmWrist_px'', Num 7),
                 (''forearmWrist_py'', Num 8), (''forearmWrist_pz'', Num 9)]\<rparr>]
   = Inl KeyError"
  by (simp add: load_and_organize_data_def has_column_def organize_def unique_def hand_dicts_def
        add_hand_columns_def row_items_def)

text \<open>
  The scenario of the specification: left timestamps 1 and 2, right timestamps 2 and 3.
\<close>

lemma union_of_timestamps_scenario:
  "map (\<lambda>row_data. (row_data ''t_mono'', row_data ''forearmWrist_px_left'', row_data ''forearmWrist_px_right''))
     (organize [\<lparr>t_mono = 2, chirality = ''left'', cells = [(''forearmWrist_px'', Num 12)]\<rparr>,
                \<lparr>t_mono = 2, chirality = ''right'', cells = [(''forearmWrist_px'', Num 22)]\<rparr>,
                \<lparr>t_mono = 1, chirality = ''left'', cells = [(''forearmWrist_px'', Num 11)]\<rparr>,
                \<lparr>t_mono = 3, chirality = ''right'', cells = [(''forearmWrist_px'', Num 23)]\<rparr>])
   = [(Some (Num 1), Some (Num 11), None),
      (Some (Num 2), Some (Num 12), Some (Num 22)),
      (Some (Num 3), None, Some (Num 23))]"
  by (simp add: organize_def unique_def hand_dicts_def add_hand_columns_def row_items_def)

lemma sort_unique: "sort (unique xs) = sorted_list_of_set (set (xs :: real list))"
proof (rule sorted_distinct_set_unique)
  show "sorted (sort (unique xs))" by simp
  show "distinct (sort (unique xs))" by (simp add: unique_def)
  show "sorted (sorted_list_of_set (set xs))" by simp
  show "distinct (sorted_list_of_set (set xs))" by simp
  show "set (sort (unique xs)) = set (sorted_list_of_set (set xs))" by (simp add: unique_def)
qed

lemma hand_dicts_snoc:
  "hand_dicts (rows @ [row]) =
     (let (right_hand_dict, left_hand_dict) = hand_dicts rows
      in if chirality row = ''right'' then (right_hand_dict(t_mono row \<mapsto> row), left_hand_dict)
         else if chirality row = ''left'' then (right_hand_dict, left_hand_dict(t_mono row \<mapsto> row))
         else (right_hand_dict, left_hand_dict))"
  by (simp add: hand_dicts_def Let_def split: prod.splits)

lemma hand_dicts_find:
  "hand_dicts rows =
     (\<lambda>t. find (\<lambda>row. chirality row = ''right'' \<and> t_mono row = t) (rev rows),
      \<lambda>t. find (\<lambda>row. chirality row = ''left'' \<and> t_mono row = t) (rev rows))"
proof (induction rows rule: rev_induct)
  case Nil
  show ?case by (simp add: hand_dicts_def)
next
  case (snoc row rows)
  show ?case
    unfolding hand_dicts_snoc snoc.IH by (auto simp add: fun_eq_iff)
qed

lemma fold_columns_dom:
  "dom (fold (\<lambda>(col, v) d. if col \<notin> set [''t_mono'', ''t_wall'', ''chirality'']
                             then d(col @ suffix \<mapsto> v) else d) items row_data)
     = dom row_data \<union> (\<lambda>col. col @ suffix) ` (fst ` set items - {''t_mono'', ''t_wall'', ''chirality''})"
  by (induction items arbitrary: row_data) (auto split: if_splits)

lemma add_hand_columns_dom:
  "dom (add_hand_columns suffix row row_data)
     = dom row_data \<union> (\<lambda>col. col @ suffix) ` data_columns row"
  unfolding add_hand_columns_def data_columns_def by (rule fold_columns_dom)

lemma fold_columns_other:
  "\<forall>col. col @ suffix \<noteq> k \<Longrightarrow>
   fold (\<lambda>(col, v) d. if col \<notin> set [''t_mono'', ''t_wall'', ''chirality'']
                        then d(col @ suffix \<mapsto> v) else d) items row_data k = row_data k"
  by (induction items arbitrary: row_data) (auto split: if_splits)

lemma t_mono_not_suffixed: "col @ ''_right'' \<noteq> ''t_mono''" "col @ ''_left'' \<noteq> ''t_mono''"
proof -
  have "last (col @ ''_right'') \<noteq> last ''t_mono''" "last (col @ ''_left'') \<noteq> last ''t_mono''"
    by simp_all
  then show "col @ ''_right'' \<noteq> ''t_mono''" "col @ ''_left'' \<noteq> ''t_mono''"
    by metis+
qed

lemma add_hand_columns_t_mono:
  "add_hand_columns ''_right'' row row_data ''t_mono'' = row_data ''t_mono''"
  "add_hand_columns ''_left'' row row_data ''t_mono'' = row_data ''t_mono''"
  unfolding add_hand_columns_def
  by (rule fold_columns_other, simp add: t_mono_not_suffixed)+

text \<open>
  What the loops before the summary lines build, for every hand table: one record per
  distinct timestamp, in increasing order, whose keys are \<open>t_mono\<close>, the right-hand
  columns if some right-hand row has this timestamp (those of the last such row), and
  the left-hand columns likewise.
\<close>

lemma organize_aligned:
  "map (\<lambda>row_data. row_data ''t_mono'') (organize hand_data)
     = map (\<lambda>t. Some (Num t)) (sorted_list_of_set (t_mono ` set hand_data))
   \<and> map dom (organize hand_data)
     = map (\<lambda>t. {''t_mono''}
             \<union> (case find (\<lambda>row. chirality row = ''right'' \<and> t_mono row = t) (rev hand_data) of
                  None \<Rightarrow> {} | Some row \<Rightarrow> (\<lambda>col. col @ ''_right'') ` data_columns row)
             \<union> (case find (\<lambda>row. chirality row = ''left'' \<and> t_mono row = t) (rev hand_data) of
                  None \<Rightarrow> {} | Some row \<Rightarrow> (\<lambda>col. col @ ''_left'') ` data_columns row))
         (sorted_list_of_set (t_mono ` set hand_data))"
  unfolding organize_def Let_def hand_dicts_find sort_unique
  by (auto simp add: add_hand_columns_t_mono add_hand_columns_dom split: option.splits)

lemma find_side_None:
  "find (\<lambda>row. chirality row = side \<and> t_mono row = t) (rev hand_data) = None
     \<longleftrightarrow> \<not> (\<exists>row \<in> set hand_data. chirality row = side \<and> t_mono row = t)"
  by (auto simp add: find_None_iff)

end
